theory Spec2Isabelle
  imports Main "HOL-Library.Sublist" "HOL-Library.Log_Nat"
begin

section \<open>Python strings\<close>

text \<open>
  A Python \<open>str\<close> is modelled as a \<open>string\<close> whose characters are ASCII code points. The
  character classes below are those of CPython on ASCII text: \<open>str.lower\<close>, \<open>str.strip\<close>
  and the classes \<open>\s\<close>, \<open>\d\<close>, \<open>\w\<close> of the \<open>re\<close> module for \<open>str\<close> patterns.
\<close>

definition nl :: char where
  "nl = CHR 0x0A"

definition is_space :: "char \<Rightarrow> bool" where
  \<comment> \<open>\<open>\s\<close> and \<open>str.isspace\<close>: TAB, LF, VT, FF, CR, the separators 0x1C..0x1F, and SPACE\<close>
  "is_space c = (let n = (of_char c :: nat) in (9 \<le> n \<and> n \<le> 13) \<or> (28 \<le> n \<and> n \<le> 32))"

definition is_digit :: "char \<Rightarrow> bool" where
  "is_digit c = (let n = (of_char c :: nat) in 48 \<le> n \<and> n \<le> 57)"

definition is_upper :: "char \<Rightarrow> bool" where
  "is_upper c = (let n = (of_char c :: nat) in 65 \<le> n \<and> n \<le> 90)"

definition is_lower :: "char \<Rightarrow> bool" where
  "is_lower c = (let n = (of_char c :: nat) in 97 \<le> n \<and> n \<le> 122)"

definition is_word_char :: "char \<Rightarrow> bool" where
  \<comment> \<open>\<open>\w\<close>: letters, digits and the underscore\<close>
  "is_word_char c = (is_upper c \<or> is_lower c \<or> is_digit c \<or> c = CHR ''_'')"

definition lower_char :: "char \<Rightarrow> char" where
  "lower_char c = (if is_upper c then char_of ((of_char c :: nat) + 32) else c)"

definition upper_char :: "char \<Rightarrow> char" where
  "upper_char c = (if is_lower c then char_of ((of_char c :: nat) - 32) else c)"

definition str_lower :: "string \<Rightarrow> string" where
  "str_lower s = map lower_char s"

definition capitalize :: "string \<Rightarrow> string" where
  \<comment> \<open>\<open>str.capitalize\<close>: first character upper-cased, the rest lower-cased\<close>
  "capitalize s = (case s of [] \<Rightarrow> [] | c # cs \<Rightarrow> upper_char c # str_lower cs)"

definition strip :: "string \<Rightarrow> string" where
  "strip s = rev (dropWhile is_space (rev (dropWhile is_space s)))"

definition endswith :: "string \<Rightarrow> string \<Rightarrow> bool" where
  "endswith s suf = suffix suf s"

definition contains :: "string \<Rightarrow> string \<Rightarrow> bool" where
  \<comment> \<open>\<open>k in t\<close> on strings: \<open>k\<close> occurs in \<open>t\<close> as a contiguous substring\<close>
  "contains t k = sublist k t"

fun split_char :: "char \<Rightarrow> string \<Rightarrow> string \<Rightarrow> string list" where
  \<comment> \<open>\<open>s.split(c)\<close> for a one-character separator; the second argument is the piece read so far, reversed\<close>
  "split_char sep acc [] = [rev acc]"
| "split_char sep acc (c # cs) =
     (if c = sep then rev acc # split_char sep [] cs else split_char sep (c # acc) cs)"

definition split_lines :: "string \<Rightarrow> string list" where
  \<comment> \<open>\<open>s.split('\n')\<close>\<close>
  "split_lines s = split_char nl [] s"

fun split_blank :: "string \<Rightarrow> string \<Rightarrow> string list" where
  \<comment> \<open>\<open>s.split('\n\n')\<close>: non-overlapping separators, left to right\<close>
  "split_blank acc [] = [rev acc]"
| "split_blank acc [c] = [rev (c # acc)]"
| "split_blank acc (c # d # cs) =
     (if c = nl \<and> d = nl then rev acc # split_blank [] cs else split_blank (c # acc) (d # cs))"

definition split_paragraphs :: "string \<Rightarrow> string list" where
  "split_paragraphs s = split_blank [] s"

fun join :: "string \<Rightarrow> string list \<Rightarrow> string" where
  \<comment> \<open>\<open>sep.join(xs)\<close>\<close>
  "join sep [] = []"
| "join sep [x] = x"
| "join sep (x # y # ys) = x @ sep @ join sep (y # ys)"

fun string_of_nat :: "nat \<Rightarrow> string" where
  \<comment> \<open>the decimal numeral an f-string prints for a non-negative \<open>int\<close>\<close>
  "string_of_nat n =
     (if n < 10 then [char_of (48 + n)] else string_of_nat (n div 10) @ [char_of (48 + n mod 10)])"

definition py_set :: "'a list \<Rightarrow> 'a list" where
  \<comment> \<open>A Python \<open>set\<close> built from the elements of a list, as the list of its members without
      repetition. Python leaves the iteration order of a set unspecified; the model lists
      the members in some fixed order, and the theorems state only facts that do not
      depend on it.\<close>
  "py_set xs = remdups xs"

section \<open>Regular expressions of the source\<close>

text \<open>
  Each pattern of the source is a sequence of greedy character-class repetitions and
  fixed characters, closed by \<open>(.*?)$\<close>. In every pattern the character that must follow
  a repetition lies outside the repeated class, so giving characters back never helps
  and the leftmost match is found by reading each repetition to its end. With
  \<open>re.MULTILINE\<close>, \<open>^\<close> holds at the start of the text and after each newline, \<open>$\<close> at the
  end of the text and before each newline; \<open>.\<close> is any character but the newline, and
  \<open>\s\<close> includes the newline.
\<close>

definition spaces1 :: "string \<Rightarrow> string option" where
  \<comment> \<open>\<open>\s+\<close>: at least one whitespace character, then all that follow\<close>
  "spaces1 s = (case s of [] \<Rightarrow> None | c # cs \<Rightarrow> if is_space c then Some (dropWhile is_space cs) else None)"

definition rest_of_line :: "string \<Rightarrow> string \<times> string" where
  \<comment> \<open>\<open>(.*?)$\<close>: the shortest run of non-newline characters that ends at a line end\<close>
  "rest_of_line s = (takeWhile (\<lambda>c. c \<noteq> nl) s, dropWhile (\<lambda>c. c \<noteq> nl) s)"

definition match_list_item :: "string \<Rightarrow> (string \<times> string) option" where
  \<comment> \<open>\<open>^\s*(?:[-*+]|\d+\.)\s+(.*?)$\<close> tried at a line start: the captured group and the unread text\<close>
  "match_list_item s =
     (case dropWhile is_space s of
        [] \<Rightarrow> None
      | c # cs \<Rightarrow>
          (case (if c \<in> set ''-*+'' then Some cs
                 else if is_digit c then
                   (case dropWhile is_digit cs of
                      [] \<Rightarrow> None
                    | d # ds \<Rightarrow> if d = CHR ''.'' then Some ds else None)
                 else None) of
             None \<Rightarrow> None
           | Some r \<Rightarrow>
               (case spaces1 r of
                  None \<Rightarrow> None
                | Some r' \<Rightarrow> Some (rest_of_line r'))))"

definition match_task_item :: "string \<Rightarrow> ((char \<times> string) \<times> string) option" where
  \<comment> \<open>\<open>^\s*[-*+]\s+\[([ xX])\]\s+(.*?)$\<close> tried at a line start: the two captured groups and the unread text\<close>
  "match_task_item s =
     (case dropWhile is_space s of
        [] \<Rightarrow> None
      | c # cs \<Rightarrow>
          if c \<in> set ''-*+'' then
            (case spaces1 cs of
               None \<Rightarrow> None
             | Some r \<Rightarrow>
                 (case r of
                    b # st # e # r' \<Rightarrow>
                      if b = CHR ''['' \<and> st \<in> set '' xX'' \<and> e = CHR '']'' then
                        (case spaces1 r' of
                           None \<Rightarrow> None
                         | Some r'' \<Rightarrow> Some ((st, fst (rest_of_line r'')), snd (rest_of_line r'')))
                      else None
                  | _ \<Rightarrow> None))
          else None)"

definition match_numbered_item :: "string \<Rightarrow> ((string \<times> string) \<times> string) option" where
  \<comment> \<open>\<open>^\s*(\d+)\.?\s+(.*?)$\<close> tried at a line start: the two captured groups and the unread text\<close>
  "match_numbered_item s =
     (let r = dropWhile is_space s; number = takeWhile is_digit r; r1 = dropWhile is_digit r
      in if number = [] then None
         else
           (case spaces1 (case r1 of [] \<Rightarrow> [] | d # ds \<Rightarrow> if d = CHR ''.'' then ds else r1) of
              None \<Rightarrow> None
            | Some r2 \<Rightarrow> Some ((number, fst (rest_of_line r2)), snd (rest_of_line r2))))"

function findall :: "(string \<Rightarrow> ('a \<times> string) option) \<Rightarrow> bool \<Rightarrow> string \<Rightarrow> 'a list" where
  \<comment> \<open>\<open>re.findall(pattern, s, re.MULTILINE)\<close> for a pattern that starts with \<open>^\<close>: the
      matcher is tried at each line start from left to right, and the scan goes on where a
      match ended. The flag says whether the scan stands at a line start; a match of the
      patterns above ends at a line end that is not a line start, or at the end of the
      text. The test on the lengths makes the recursion end for any matcher; for the
      patterns above it always holds, as a match of theirs is never empty.\<close>
  "findall m bol s =
     (case (if bol then m s else None) of
        Some (x, rest) \<Rightarrow> if length rest < length s then x # findall m False rest else [x]
      | None \<Rightarrow> (case s of [] \<Rightarrow> [] | c # cs \<Rightarrow> findall m (c = nl) cs))"
  by pat_completeness auto
termination
  by (relation "measure (\<lambda>(m, bol, s). length s)") auto

fun findall_words :: "string \<Rightarrow> string \<Rightarrow> string list" where
  \<comment> \<open>\<open>re.findall(r'\b\w+\b', s)\<close>: the maximal runs of word characters; the first
      argument is the run read so far, reversed\<close>
  "findall_words acc [] = (if acc = [] then [] else [rev acc])"
| "findall_words acc (c # cs) =
     (if is_word_char c then findall_words (c # acc) cs
      else (if acc = [] then [] else [rev acc]) @ findall_words [] cs)"

function split_sections :: "string \<Rightarrow> string \<Rightarrow> string list" where
  \<comment> \<open>\<open>re.split(r'##\s+', s)\<close>: the pieces between the matches of two hash signs followed
      by whitespace; the first argument is the piece read so far, reversed\<close>
  "split_sections acc [] = [rev acc]"
| "split_sections acc (c # cs) =
     (case (if c = CHR ''#'' then (case cs of [] \<Rightarrow> None | d # ds \<Rightarrow> if d = CHR ''#'' then spaces1 ds else None)
            else None) of
        Some rest \<Rightarrow> rev acc # split_sections [] rest
      | None \<Rightarrow> split_sections (c # acc) cs)"
  by pat_completeness auto
termination
  apply (relation "measure (\<lambda>(acc, s). length s)")
    apply simp
   apply (auto simp: spaces1_def less_Suc_eq_le le_SucI length_dropWhile_le split: if_splits list.splits)
  done

section \<open>Data model\<close>

datatype source = Documentation | Generated

datatype completion_method = CommitMessage | FileContent

text \<open>
  An implementation step is a Python dictionary. The keys \<open>description\<close> and \<open>completed\<close>
  are set by every path that creates a step; the other keys may be absent, which is \<open>None\<close>
  here. The key \<open>id\<close> is \<open>step_id\<close> and the key \<open>order\<close> is \<open>step_order\<close>.
\<close>

record step =
  description :: string
  completed :: bool
  source :: "source option"
  category :: "string option"
  completion_method :: "completion_method option"
  relevant_file :: "string option"
  step_id :: "string option"
  step_order :: "int option"
  slack_message_ts :: "string option"
  requested_at :: "string option"

text \<open>The requirement dictionary has the four fixed keys the source creates it with.\<close>

record requirements =
  functional :: "string list"
  technical :: "string list"
  ui :: "string list"
  architecture :: "string list"

text \<open>A dictionary from file names to contents, in insertion order.\<close>

type_synonym docs = "(string \<times> string) list"

fun dict_set :: "('k \<times> 'v) list \<Rightarrow> 'k \<Rightarrow> 'v \<Rightarrow> ('k \<times> 'v) list" where
  \<comment> \<open>\<open>d[k] = v\<close>: a present key keeps its place, a new key goes last\<close>
  "dict_set [] k v = [(k, v)]"
| "dict_set ((k', v') # d) k v = (if k' = k then (k, v) # d else (k', v') # dict_set d k v)"

text \<open>
  The documentation folder as the file system shows it: listing the folder fails, or it
  gives the entries, each with the result of opening and reading it as text.
\<close>

datatype os_error = OSError

type_synonym folder = "os_error + (string \<times> (os_error + string)) list"

section \<open>Requirements extraction (requirements\_analyzer.py)\<close>

fun read_md_files :: "(string \<times> (os_error + string)) list \<Rightarrow> docs \<Rightarrow> os_error + docs" where
  \<comment> \<open>the loop of \<open>load_docs\<close>; an exception leaves it as \<open>Inl\<close>\<close>
  "read_md_files [] docs = Inr docs"
| "read_md_files ((filename, r) # es) docs =
     (if endswith filename ''.md'' then
        (case r of
           Inl e \<Rightarrow> Inl e
         | Inr content \<Rightarrow> read_md_files es (dict_set docs filename content))
      else read_md_files es docs)"

definition load_docs :: "folder \<Rightarrow> docs" where
  \<comment> \<open>\<open>try: ... return docs  except Exception: return {}\<close>\<close>
  "load_docs fd =
     (case fd of
        Inl e \<Rightarrow> []
      | Inr entries \<Rightarrow> (case read_md_files entries [] of Inl e \<Rightarrow> [] | Inr docs \<Rightarrow> docs))"

definition extract_list_items :: "string \<Rightarrow> string list" where
  "extract_list_items text =
     (let list_items = findall match_list_item True text;
          paragraphs = map strip (filter (\<lambda>p. strip p \<noteq> []) (split_paragraphs text));
          all_items = list_items @ paragraphs
      in map strip (filter (\<lambda>item. strip item \<noteq> []) all_items))"

definition functional_keywords :: "string list" where
  "functional_keywords = [''feature'', ''functionality'', ''capabilities'']"

definition technical_keywords :: "string list" where
  "technical_keywords = [''technical'', ''implementation'', ''technology'']"

definition ui_keywords :: "string list" where
  "ui_keywords = [''ui'', ''interface'', ''user experience'']"

definition architecture_keywords :: "string list" where
  "architecture_keywords = [''architecture'', ''structure'', ''design'']"

definition any_keyword_in :: "string list \<Rightarrow> string \<Rightarrow> bool" where
  \<comment> \<open>\<open>any(keyword in t for keyword in kws)\<close>\<close>
  "any_keyword_in kws t = (\<exists>keyword \<in> set kws. contains t keyword)"

definition section_title :: "string \<Rightarrow> string" where
  \<comment> \<open>\<open>lines[0].strip()\<close> for \<open>lines = section.split('\n')\<close>; \<open>split\<close> never returns an empty list\<close>
  "section_title section_text = (case split_lines section_text of [] \<Rightarrow> [] | line0 # _ \<Rightarrow> strip line0)"

definition section_content :: "string \<Rightarrow> string" where
  \<comment> \<open>\<open>'\n'.join(lines[1:]).strip()\<close>\<close>
  "section_content section_text = strip (join [nl] (tl (split_lines section_text)))"

definition add_section :: "requirements \<Rightarrow> string \<Rightarrow> requirements" where
  \<comment> \<open>the body of the loop over the sections of one document\<close>
  "add_section reqs section_text =
     (if strip section_text = [] then reqs
      else if any_keyword_in functional_keywords (str_lower (section_title section_text)) then
        reqs\<lparr>functional := functional reqs @ extract_list_items (section_content section_text)\<rparr>
      else if any_keyword_in technical_keywords (str_lower (section_title section_text)) then
        reqs\<lparr>technical := technical reqs @ extract_list_items (section_content section_text)\<rparr>
      else if any_keyword_in ui_keywords (str_lower (section_title section_text)) then
        reqs\<lparr>ui := ui reqs @ extract_list_items (section_content section_text)\<rparr>
      else if any_keyword_in architecture_keywords (str_lower (section_title section_text)) then
        reqs\<lparr>architecture := architecture reqs @ extract_list_items (section_content section_text)\<rparr>
      else reqs)"

definition add_document :: "requirements \<Rightarrow> string \<times> string \<Rightarrow> requirements" where
  "add_document reqs doc = foldl add_section reqs (split_sections [] (snd doc))"

definition dedup :: "string list \<Rightarrow> string list" where
  \<comment> \<open>\<open>list(set(req for req in reqs if req))\<close>\<close>
  "dedup reqs = py_set (filter (\<lambda>req. req \<noteq> []) reqs)"

definition extract_requirements :: "docs \<Rightarrow> requirements" where
  "extract_requirements docs =
     (let reqs = foldl add_document
                   \<lparr>functional = [], technical = [], ui = [], architecture = []\<rparr> docs
      in \<lparr>functional = dedup (functional reqs), technical = dedup (technical reqs),
          ui = dedup (ui reqs), architecture = dedup (architecture reqs)\<rparr>)"

definition documentation_step :: "string \<Rightarrow> bool \<Rightarrow> step" where
  "documentation_step d c =
     \<lparr>description = d, completed = c, source = Some Documentation, category = None,
      completion_method = None, relevant_file = None, step_id = None, step_order = None,
      slack_message_ts = None, requested_at = None\<rparr>"

definition generated_step :: "string \<Rightarrow> string \<Rightarrow> step" where
  "generated_step d cat =
     \<lparr>description = d, completed = False, source = Some Generated, category = Some cat,
      completion_method = None, relevant_file = None, step_id = None, step_order = None,
      slack_message_ts = None, requested_at = None\<rparr>"

definition extract_implementation_steps :: "string \<Rightarrow> step list" where
  "extract_implementation_steps content =
     (let task_list_items = findall match_task_item True content;
          steps = map (\<lambda>(status, d). documentation_step (strip d) (lower_char status = CHR ''x''))
                    task_list_items
      in if steps = [] then
           map (\<lambda>(number, d). documentation_step (strip d) False)
             (findall match_numbered_item True content)
         else steps)"

definition generate_steps_from_requirements :: "requirements \<Rightarrow> step list" where
  "generate_steps_from_requirements reqs =
     map (\<lambda>req. generated_step (''Implement '' @ req) ''functional'') (functional reqs) @
     map (\<lambda>req. generated_step (''Implement '' @ req) ''technical'') (technical reqs) @
     map (\<lambda>req. generated_step (''Implement UI for '' @ req) ''ui'') (ui reqs) @
     map (\<lambda>req. generated_step (''Set up '' @ req) ''architecture'') (architecture reqs)"

fun documented_steps :: "docs \<Rightarrow> step list \<Rightarrow> step list" where
  \<comment> \<open>the loop of \<open>generate_implementation_steps\<close> over the documents\<close>
  "documented_steps [] implementation_steps = implementation_steps"
| "documented_steps ((filename, content) # ds) implementation_steps =
     (if contains (str_lower filename) ''implementation'' \<or> contains (str_lower filename) ''plan'' then
        (let steps = extract_implementation_steps content
         in documented_steps ds
              (if steps \<noteq> [] then implementation_steps @ steps else implementation_steps))
      else documented_steps ds implementation_steps)"

text \<open>
  The state of a \<open>RequirementsAnalyzer\<close>; the folder it reads is an argument of the
  operations.
\<close>

record requirements_analyzer =
  ra_requirements :: requirements
  ra_implementation_steps :: "step list"

definition no_requirements :: requirements where
  "no_requirements = \<lparr>functional = [], technical = [], ui = [], architecture = []\<rparr>"

definition new_analyzer :: requirements_analyzer where
  \<comment> \<open>a \<open>RequirementsAnalyzer\<close> as its constructor leaves it, but for the empty dictionary
      of requirements, which is the dictionary with four empty lists here\<close>
  "new_analyzer = \<lparr>ra_requirements = no_requirements, ra_implementation_steps = []\<rparr>"

definition generate_implementation_steps ::
  "folder \<Rightarrow> requirements_analyzer \<Rightarrow> step list \<times> requirements_analyzer" where
  "generate_implementation_steps fd self =
     (let docs = load_docs fd;
          reqs = extract_requirements docs;
          implementation_steps = documented_steps docs [];
          implementation_steps =
            (if implementation_steps = [] then generate_steps_from_requirements reqs
             else implementation_steps)
      in (implementation_steps,
          self\<lparr>ra_requirements := reqs, ra_implementation_steps := implementation_steps\<rparr>))"

definition step_category :: "step \<Rightarrow> string" where
  \<comment> \<open>\<open>step.get("category", "general")\<close>\<close>
  "step_category s = (case category s of None \<Rightarrow> ''general'' | Some c \<Rightarrow> c)"

fun group_by_category :: "step list \<Rightarrow> (string \<times> step list) list \<Rightarrow> (string \<times> step list) list" where
  \<comment> \<open>the loop that fills the dictionary \<open>categories\<close>\<close>
  "group_by_category [] categories = categories"
| "group_by_category (s # ss) categories =
     (let c = step_category s;
          categories = (if c \<notin> set (map fst categories) then dict_set categories c [] else categories)
      in group_by_category ss
           (map (\<lambda>(k, v). if k = c then (k, v @ [s]) else (k, v)) categories))"

definition step_line :: "step \<Rightarrow> string" where
  "step_line s = (if completed s then ''[x]'' else ''[ ]'') @ '' '' @ description s @ [nl]"

definition category_block :: "string \<times> step list \<Rightarrow> string" where
  "category_block cs =
     ''## '' @ capitalize (fst cs) @ '' Implementation'' @ [nl, nl] @
     concat (map step_line (snd cs)) @ [nl]"

definition plan_text :: "step list \<Rightarrow> string" where
  \<comment> \<open>what \<open>save_implementation_plan\<close> writes for the steps it holds\<close>
  "plan_text steps =
     ''# Implementation Plan'' @ [nl, nl] @ concat (map category_block (group_by_category steps []))"


section \<open>Python floats\<close>

text \<open>
  A Python \<open>float\<close> is an IEEE 754 double: a value of the form \<open>m * 2^e\<close> with a
  significand \<open>m\<close> of at most 53 bits. A finite double is modelled by the rational number
  it denotes, and each arithmetic operation returns the exact result rounded to the
  nearest double, ties to the even significand. The operands of the source are list
  lengths and percentages, far inside the range of normal doubles, so the exponent is
  not bounded here.
\<close>

definition binade :: "rat \<Rightarrow> int" where
  \<comment> \<open>for \<open>x > 0\<close>, the exponent \<open>e\<close> with \<open>2^e \<le> x < 2^(e+1)\<close>\<close>
  "binade x =
     (let (a, b) = quotient_of x; d = bitlen a - bitlen b
      in if 2 powi d \<le> x then d else d - 1)"

definition round_half_even :: "rat \<Rightarrow> int" where
  "round_half_even y =
     (let f = \<lfloor>y\<rfloor>; r = y - of_int f
      in if r < 1 / 2 then f else if 1 / 2 < r then f + 1 else if even f then f else f + 1)"

definition round_double :: "rat \<Rightarrow> rat" where
  \<comment> \<open>the double nearest to a non-negative rational\<close>
  "round_double x =
     (if x \<le> 0 then 0
      else let s = 2 powi (binade x - 52) in of_int (round_half_even (x / s)) * s)"

definition fdiv :: "nat \<Rightarrow> nat \<Rightarrow> rat" where
  \<comment> \<open>\<open>a / b\<close> on two \<open>int\<close>s, \<open>b\<close> not zero: the correctly rounded quotient\<close>
  "fdiv a b = round_double (of_nat a / of_nat b)"

definition fmul :: "rat \<Rightarrow> rat \<Rightarrow> rat" where
  \<comment> \<open>\<open>x * y\<close> on doubles\<close>
  "fmul x y = round_double (x * y)"

definition string_of_int :: "int \<Rightarrow> string" where
  "string_of_int i = (if i < 0 then ''-'' @ string_of_nat (nat (- i)) else string_of_nat (nat i))"

section \<open>Progress analyzer (github\_analyzer.py)\<close>

text \<open>
  The repository as the three query methods show it, each with its own failure policy
  applied: the commits of the lookback window (empty when the tool fails), the files
  changed by a commit (empty when the tool fails), and the content of a file of the
  working tree (empty when it cannot be read).
\<close>

record commit =
  sha :: string
  author :: string
  date :: string
  message :: string

record repo =
  recent_commits :: "commit list"
  changed_files :: "string \<Rightarrow> string list"
  file_content :: "string \<Rightarrow> string"

definition common_words :: "string list" where
  "common_words =
     [''a'', ''an'', ''the'', ''and'', ''or'', ''but'', ''if'', ''then'', ''else'', ''when'',
      ''at'', ''from'', ''by'', ''for'', ''with'', ''about'', ''against'', ''between'',
      ''into'', ''through'', ''during'', ''before'', ''after'', ''above'', ''below'',
      ''to'', ''of'', ''in'', ''on'', ''is'', ''are'', ''was'', ''were'', ''be'', ''been'',
      ''being'', ''have'', ''has'', ''had'', ''do'', ''does'', ''did'', ''will'', ''would'',
      ''shall'', ''should'', ''may'', ''might'', ''must'', ''can'', ''could'', ''implement'',
      ''set'', ''up'', ''create'', ''add'', ''build'', ''develop'', ''make'', ''ui'']"

definition extract_keywords :: "string \<Rightarrow> string list" where
  "extract_keywords text =
     (let words = findall_words [] (str_lower text)
      in py_set (filter (\<lambda>word. word \<notin> set common_words \<and> length word > 2) words))"

definition has_enough_keywords :: "string \<Rightarrow> string list \<Rightarrow> rat \<Rightarrow> bool" where
  \<comment> \<open>the third argument is \<open>threshold\<close>, a double; every caller leaves it at its default 0.5\<close>
  "has_enough_keywords text keywords threshold =
     (if keywords = [] then False
      else
        (let present_keywords = length (filter (\<lambda>keyword. contains text keyword) keywords)
         in fdiv present_keywords (length keywords) \<ge> threshold))"

definition excluded_anywhere :: "string list" where
  "excluded_anywhere =
     [''.git/'', ''.github/'', ''node_modules/'', ''__pycache__/'', ''.vscode/'', ''.idea/'',
      ''.DS_Store'', ''.env'']"

definition excluded_at_end :: "string list" where
  "excluded_at_end =
     [''.log'', ''.md'', ''.json'', ''.lock'', ''.txt'', ''.csv'', ''.yml'', ''.yaml'', ''.toml'',
      ''.ini'', ''.cfg'']"

definition is_relevant_file :: "string \<Rightarrow> bool" where
  \<comment> \<open>\<open>re.search\<close> of each excluded pattern: a fixed text anywhere, or a fixed text before
      \<open>$\<close>, which holds at the end of the path and before a newline that ends it\<close>
  "is_relevant_file file_path =
     (\<not> (\<exists>p \<in> set excluded_anywhere. contains file_path p) \<and>
      \<not> (\<exists>p \<in> set excluded_at_end. endswith file_path p \<or> endswith file_path (p @ [nl])))"

fun check_commit_messages :: "string list \<Rightarrow> string \<Rightarrow> step \<Rightarrow> step" where
  \<comment> \<open>the loop over the commit messages, left at the first match\<close>
  "check_commit_messages [] step_description st = st"
| "check_commit_messages (msg # msgs) step_description st =
     (let keywords = extract_keywords step_description
      in if has_enough_keywords (str_lower msg) keywords (1 / 2) then
           st\<lparr>completed := True, completion_method := Some CommitMessage\<rparr>
         else check_commit_messages msgs step_description st)"

fun check_file_contents :: "repo \<Rightarrow> string list \<Rightarrow> string \<Rightarrow> step \<Rightarrow> step" where
  \<comment> \<open>the loop over the changed files, left at the first match\<close>
  "check_file_contents r [] step_description st = st"
| "check_file_contents r (file_path # fs) step_description st =
     (if \<not> is_relevant_file file_path then check_file_contents r fs step_description st
      else
        (let content = file_content r file_path;
             keywords = extract_keywords step_description
         in if has_enough_keywords (str_lower content) keywords (1 / 2) then
              st\<lparr>completed := True, completion_method := Some FileContent,
                 relevant_file := Some file_path\<rparr>
            else check_file_contents r fs step_description st))"

definition analyze_step :: "repo \<Rightarrow> string list \<Rightarrow> string list \<Rightarrow> step \<Rightarrow> step" where
  \<comment> \<open>the body of the loop over the steps\<close>
  "analyze_step r commit_messages all_changed_files st =
     (let step_description = str_lower (description st)
      in if completed st then st
         else
           (let st = check_commit_messages commit_messages step_description st
            in if \<not> completed st then check_file_contents r all_changed_files step_description st
               else st))"

definition analyze_implementation_progress :: "repo \<Rightarrow> step list \<Rightarrow> step list" where
  "analyze_implementation_progress r implementation_steps =
     (let commits = recent_commits r;
          all_changed_files = py_set (concat (map (\<lambda>c. changed_files r (sha c)) commits));
          commit_messages = map message commits
      in map (analyze_step r commit_messages all_changed_files) implementation_steps)"

section \<open>Notification sender (slack\_integration.py)\<close>

text \<open>
  A message is what \<open>chat_postMessage\<close> receives: the channel, the fallback text and the
  blocks. The value of a button is the JSON object of a step identifier and an action,
  kept here as the pair. The client answers with the timestamp of the posted message or
  raises \<open>SlackApiError\<close>; an integration without a token has no client.
\<close>

datatype slack_error = SlackApiError

datatype block =
    Header string
  | Section string
  | SectionFields "string list"
  | Actions string string "string \<times> string" string

record slack_message =
  msg_channel :: string
  msg_text :: string
  msg_blocks :: "block list"

type_synonym slack_client = "slack_message \<Rightarrow> slack_error + string"

record slack_integration =
  si_channel :: string
  si_client :: "slack_client option"

definition check_mark :: string where
  \<comment> \<open>the emoji U+2705, as its UTF-8 bytes\<close>
  "check_mark = [CHR 0xE2, CHR 0x9C, CHR 0x85]"

definition white_square :: string where
  \<comment> \<open>the emoji U+2B1C, as its UTF-8 bytes\<close>
  "white_square = [CHR 0xE2, CHR 0xAC, CHR 0x9C]"

definition step_id_or_unknown :: "step \<Rightarrow> string" where
  \<comment> \<open>\<open>step.get("id", "unknown")\<close>\<close>
  "step_id_or_unknown s = (case step_id s of None \<Rightarrow> ''unknown'' | Some i \<Rightarrow> i)"

definition post :: "slack_integration \<Rightarrow> slack_client \<Rightarrow> slack_message \<Rightarrow> string option \<times> slack_message list" where
  \<comment> \<open>\<open>try: response = client.chat_postMessage(...); return response['ts']  except
      SlackApiError: return None\<close>, with the messages handed to the client\<close>
  "post self client msg = (case client msg of Inl e \<Rightarrow> (None, [msg]) | Inr ts \<Rightarrow> (Some ts, [msg]))"

definition implementation_request_message :: "string \<Rightarrow> step \<Rightarrow> string \<Rightarrow> slack_message" where
  "implementation_request_message channel st context =
     \<lparr>msg_channel = channel,
      msg_text = ''Implementation Request: '' @ description st,
      msg_blocks =
        [Header ''Implementation Request'', Section (''*Task:* '' @ description st)] @
        (if context \<noteq> [] then [Section (''*Context:*'' @ [nl] @ context)] else []) @
        (case category st of
           None \<Rightarrow> []
         | Some c \<Rightarrow> [SectionFields [''*Category:* '' @ capitalize c]]) @
        [Actions ''Start Implementation'' ''primary'' (step_id_or_unknown st, ''start'')
           ''start_implementation'']\<rparr>"

definition send_implementation_request ::
  "slack_integration \<Rightarrow> step \<Rightarrow> string \<Rightarrow> string option \<times> slack_message list" where
  "send_implementation_request self st context =
     (case si_client self of
        None \<Rightarrow> (None, [])
      | Some client \<Rightarrow> post self client (implementation_request_message (si_channel self) st context))"

definition progress_percentage :: "nat \<Rightarrow> nat \<Rightarrow> int" where
  \<comment> \<open>\<open>int(len(completed_steps) / total_steps * 100) if total_steps > 0 else 0\<close>; \<open>int\<close>
      of a non-negative double drops its fraction\<close>
  "progress_percentage completed_count pending_count =
     (let total_steps = completed_count + pending_count
      in if total_steps > 0 then \<lfloor>fmul (fdiv completed_count total_steps) 100\<rfloor> else 0)"

definition task_list_text :: "string \<Rightarrow> string \<Rightarrow> step list \<Rightarrow> string" where
  \<comment> \<open>the text of the completed and of the pending block: at most five steps, then the
      count of the others\<close>
  "task_list_text title mark steps =
     title @ [nl] @
     concat (map (\<lambda>s. mark @ '' '' @ description s @ [nl]) (take 5 steps)) @
     (if length steps > 5 then ''_...and '' @ string_of_nat (length steps - 5) @ '' more_'' @ [nl]
      else [])"

definition progress_update_message :: "string \<Rightarrow> step list \<Rightarrow> step list \<Rightarrow> slack_message" where
  "progress_update_message channel completed_steps pending_steps =
     (let total_steps = length completed_steps + length pending_steps;
          percentage = progress_percentage (length completed_steps) (length pending_steps)
      in \<lparr>msg_channel = channel,
          msg_text = ''Implementation Progress: '' @ string_of_int percentage @ ''% complete'',
          msg_blocks =
            [Header ''Implementation Progress Update'',
             Section (''*Progress:* '' @ string_of_int percentage @ ''% complete ('' @
                      string_of_nat (length completed_steps) @ ''/'' @ string_of_nat total_steps @
                      '' tasks)'')] @
            (if completed_steps \<noteq> [] then
               [Section (task_list_text ''*Completed Tasks:*'' check_mark completed_steps)]
             else []) @
            (if pending_steps \<noteq> [] then
               [Section (task_list_text ''*Pending Tasks:*'' white_square pending_steps)]
             else []) @
            (case pending_steps of
               [] \<Rightarrow> []
             | next_step # _ \<Rightarrow>
                 [Section (''*Next Task:* '' @ description next_step),
                  Actions ''Start Next Task'' ''primary'' (step_id_or_unknown next_step, ''start'')
                    ''start_implementation''])\<rparr>)"

definition send_progress_update ::
  "slack_integration \<Rightarrow> step list \<Rightarrow> step list \<Rightarrow> string option \<times> slack_message list" where
  "send_progress_update self completed_steps pending_steps =
     (case si_client self of
        None \<Rightarrow> (None, [])
      | Some client \<Rightarrow>
          post self client (progress_update_message (si_channel self) completed_steps pending_steps))"

section \<open>Planner (clean\_coder\_planner.py)\<close>

datatype py_error = TypeError

record planner =
  implementation_steps :: "step list"
  slack :: slack_integration
  last_update_time :: "string option"

definition update_implementation_progress ::
  "repo \<Rightarrow> planner \<Rightarrow> (step list \<times> step list) \<times> planner" where
  \<comment> \<open>the completed and the pending steps, and the planner afterwards; the plan file
      written in between does not touch the steps\<close>
  "update_implementation_progress r self =
     (let steps = analyze_implementation_progress r (implementation_steps self)
      in ((filter completed steps, filter (\<lambda>s. \<not> completed s) steps),
          self\<lparr>implementation_steps := steps\<rparr>))"

definition get_context_for_step :: "step list \<Rightarrow> step \<Rightarrow> py_error + string" where
  \<comment> \<open>\<open>set(relevant_files)[:5]\<close> subscripts a set, which raises \<open>TypeError\<close> before the
      first file is written; it is reached whenever \<open>relevant_files\<close> is not empty\<close>
  "get_context_for_step steps st =
     (let cat = step_category st;
          related_steps = filter (\<lambda>s. category s = Some cat \<and> step_id s \<noteq> step_id st) steps;
          completed_related_steps = filter completed related_steps;
          context = ''This task is part of the '' @ capitalize cat @ '' implementation.'' @ [nl, nl];
          context =
            (if completed_related_steps \<noteq> [] then
               context @ ''Related completed tasks:'' @ [nl] @
               concat (map (\<lambda>s. ''- '' @ description s @ [nl]) (take 3 completed_related_steps)) @
               (if length completed_related_steps > 3 then
                  ''- ...and '' @ string_of_nat (length completed_related_steps - 3) @ '' more'' @ [nl]
                else []) @
               [nl]
             else context);
          relevant_files =
            concat (map (\<lambda>s. case relevant_file s of None \<Rightarrow> [] | Some f \<Rightarrow> [f])
                      completed_related_steps)
      in if relevant_files \<noteq> [] then Inl TypeError else Inr context)"

definition order_key :: "step \<Rightarrow> int" where
  \<comment> \<open>\<open>s.get("order", 0)\<close>\<close>
  "order_key s = (case step_order s of None \<Rightarrow> 0 | Some n \<Rightarrow> n)"

fun min_by_order :: "nat \<times> step \<Rightarrow> (nat \<times> step) list \<Rightarrow> nat \<times> step" where
  \<comment> \<open>\<open>min(..., key=order)\<close> over steps paired with their positions: the first of the least\<close>
  "min_by_order best [] = best"
| "min_by_order best (p # ps) =
     min_by_order (if order_key (snd p) < order_key (snd best) then p else best) ps"

definition send_next_implementation_request ::
  "string \<Rightarrow> planner \<Rightarrow> py_error + (step option \<times> planner \<times> slack_message list)" where
  \<comment> \<open>the first argument is the time of the call; the chosen step is changed in place, so
      the planner's list holds the changed step\<close>
  "send_next_implementation_request now self =
     (let steps = implementation_steps self;
          pending_steps = filter (\<lambda>p. \<not> completed (snd p)) (enumerate 0 steps)
      in case pending_steps of
           [] \<Rightarrow> Inr (None, self, [])
         | p # ps \<Rightarrow>
             (let (i, next_step) = min_by_order p ps
              in case get_context_for_step steps next_step of
                   Inl e \<Rightarrow> Inl e
                 | Inr context \<Rightarrow>
                     (let (message_ts, sent) =
                            send_implementation_request (slack self) next_step context;
                          next_step =
                            (case message_ts of
                               None \<Rightarrow> next_step
                             | Some ts \<Rightarrow>
                                 if ts \<noteq> [] then
                                   next_step\<lparr>slack_message_ts := Some ts, requested_at := Some now\<rparr>
                                 else next_step)
                      in Inr (Some next_step,
                              self\<lparr>implementation_steps := steps[i := next_step]\<rparr>, sent))))"

definition planner_send_progress_update ::
  "string \<Rightarrow> planner \<Rightarrow> string option \<times> planner \<times> slack_message list" where
  \<comment> \<open>\<open>CleanCoderPlanner.send_progress_update\<close>; the first argument is the time of the call\<close>
  "planner_send_progress_update now self =
     (let completed_steps = filter completed (implementation_steps self);
          pending_steps = filter (\<lambda>s. \<not> completed s) (implementation_steps self);
          (message_ts, sent) = send_progress_update (slack self) completed_steps pending_steps
      in (message_ts,
          (case message_ts of
             None \<Rightarrow> self
           | Some ts \<Rightarrow> if ts \<noteq> [] then self\<lparr>last_update_time := Some now\<rparr> else self),
          sent))"

section \<open>Notions used in the statements\<close>

text \<open>
  The precedence of the requirement categories is written here in the words of the
  specification, to be compared with the chain of tests in \<open>add_section\<close>.
\<close>

datatype req_category = Functional | Technical | Ui | Architecture

definition category_keywords :: "req_category \<Rightarrow> string list" where
  "category_keywords c =
     (case c of
        Functional \<Rightarrow> functional_keywords
      | Technical \<Rightarrow> technical_keywords
      | Ui \<Rightarrow> ui_keywords
      | Architecture \<Rightarrow> architecture_keywords)"

definition first_matching_category :: "string \<Rightarrow> req_category option" where
  \<comment> \<open>the first category, in the order functional, technical, ui, architecture, one of
      whose keywords occurs in the lower-cased title\<close>
  "first_matching_category title =
     find (\<lambda>c. any_keyword_in (category_keywords c) (str_lower title))
       [Functional, Technical, Ui, Architecture]"

definition items_of :: "req_category \<Rightarrow> requirements \<Rightarrow> string list" where
  "items_of c reqs =
     (case c of
        Functional \<Rightarrow> functional reqs
      | Technical \<Rightarrow> technical reqs
      | Ui \<Rightarrow> ui reqs
      | Architecture \<Rightarrow> architecture reqs)"

definition is_next_task_block :: "block \<Rightarrow> bool" where
  \<comment> \<open>the block that names the next task, by its text\<close>
  "is_next_task_block b = (case b of Section t \<Rightarrow> prefix ''*Next Task:*'' t | _ \<Rightarrow> False)"






section \<open>Concrete inputs\<close>

definition example_repo :: repo where
  \<comment> \<open>a repository with one commit in the window, which changed one file\<close>
  "example_repo =
     \<lparr>recent_commits =
        [\<lparr>sha = ''c0ffee'', author = ''dev'', date = ''2024-01-01'',
          message = ''Implement add login flow''\<rparr>],
      changed_files = (\<lambda>s. [''src/login.py'']),
      file_content = (\<lambda>p. ''def login(): pass'')\<rparr>"

definition login_step :: step where
  \<comment> \<open>the step generated from the requirement \<open>Add login\<close>\<close>
  "login_step = generated_step ''Implement Add login'' ''functional''"

definition logout_done :: step where
  "logout_done = (generated_step ''Implement Add logout'' ''functional'')\<lparr>completed := True\<rparr>"

definition logout_pending :: step where
  "logout_pending =
     (generated_step ''Implement Add logout'' ''functional'')
       \<lparr>step_id := Some ''b'', step_order := Some 1\<rparr>"

definition login_found_in_file :: step where
  \<comment> \<open>a step as the progress analyzer leaves it after a match in a file\<close>
  "login_found_in_file =
     (generated_step ''Implement Add login'' ''functional'')
       \<lparr>completed := True, completion_method := Some FileContent,
        relevant_file := Some ''src/login.py'', step_id := Some ''a'', step_order := Some 0\<rparr>"



definition feature_design_section :: string where
  \<comment> \<open>a section whose title has a keyword of \<open>functional\<close> and one of \<open>architecture\<close>\<close>
  "feature_design_section = ''Feature design'' @ [nl] @ ''- Dark mode''"

definition features_doc :: string where
  "features_doc = ''## Features'' @ [nl] @ ''- Add login'' @ [nl] @ ''- Add logout''"

definition list_block :: string where
  \<comment> \<open>the two list lines of \<open>features_doc\<close>, which are also its only paragraph\<close>
  "list_block = ''- Add login'' @ [nl] @ ''- Add logout''"

definition features_folder :: folder where
  \<comment> \<open>a documentation folder with exactly one file\<close>
  "features_folder = Inr [(''requirements.md'', Inr features_doc)]"

definition two_keywords :: "string list" where
  "two_keywords = [''login'', ''payment'']"

definition accepting_slack :: slack_integration where
  \<comment> \<open>an integration with a token, whose client accepts every message\<close>
  "accepting_slack = \<lparr>si_channel = ''general'', si_client = Some (\<lambda>m. Inr ''1700000000.000100'')\<rparr>"

definition finished_planner :: planner where
  \<comment> \<open>a planner all of whose steps are completed\<close>
  "finished_planner = \<lparr>implementation_steps = [login_found_in_file, logout_done], slack = accepting_slack, last_update_time = None\<rparr>"

definition idle_planner :: planner where
  \<comment> \<open>a planner with no steps at all\<close>
  "idle_planner = \<lparr>implementation_steps = [], slack = accepting_slack, last_update_time = None\<rparr>"

section \<open>A match is never empty\<close>

text \<open>
  \<open>findall\<close> goes on after a match only where the match has consumed something. Each
  of the three patterns consumes at least two characters, so the test in \<open>findall\<close>
  never fails for them.
\<close>

lemma spaces1_shorter: "spaces1 s = Some r \<Longrightarrow> length r < length s"
  by (auto simp: spaces1_def less_Suc_eq_le length_dropWhile_le split: list.splits if_splits)

lemma rest_of_line_not_longer: "length (snd (rest_of_line s)) \<le> length s"
  by (simp add: rest_of_line_def length_dropWhile_le)

lemma dropWhile_Cons_shorter: "dropWhile P s = c # cs \<Longrightarrow> length cs < length s"
  using length_dropWhile_le [of P s] by simp

lemma after_spaces_shorter:
  assumes "spaces1 r = Some r'" and "length r \<le> n"
  shows "length (snd (rest_of_line r')) < n"
  using spaces1_shorter [OF assms(1)] rest_of_line_not_longer [of r'] assms(2) by linarith

lemma match_list_item_shorter:
  assumes "match_list_item s = Some (x, rest)"
  shows "length rest < length s"
proof (cases "dropWhile is_space s")
  case Nil
  with assms show ?thesis
    by (simp add: match_list_item_def)
next
  case (Cons c cs)
  note cs = dropWhile_Cons_shorter [OF Cons]
  show ?thesis
  proof (cases "c \<in> set ''-*+''")
    case True
    with assms Cons obtain r' where "spaces1 cs = Some r'" and "rest = snd (rest_of_line r')"
      by (auto simp: match_list_item_def split: option.splits)
    then show ?thesis
      using after_spaces_shorter [of cs r' "length cs"] cs by simp
  next
    case False
    with assms Cons obtain d ds r' where ds: "dropWhile is_digit cs = d # ds"
      and "spaces1 ds = Some r'" and "rest = snd (rest_of_line r')"
      by (auto simp: match_list_item_def split: option.splits if_splits list.splits)
    then show ?thesis
      using after_spaces_shorter [of ds r' "length ds"] dropWhile_Cons_shorter [OF ds] cs by simp
  qed
qed

lemma match_task_item_shorter:
  assumes "match_task_item s = Some (x, rest)"
  shows "length rest < length s"
proof (cases "dropWhile is_space s")
  case Nil
  with assms show ?thesis
    by (simp add: match_task_item_def)
next
  case (Cons c cs)
  note cs = dropWhile_Cons_shorter [OF Cons]
  from assms Cons obtain r b st e r' r'' where "spaces1 cs = Some r" and "r = b # st # e # r'"
    and "spaces1 r' = Some r''" and "rest = snd (rest_of_line r'')"
    by (auto simp: match_task_item_def split: option.splits if_splits list.splits)
  then show ?thesis
    using after_spaces_shorter [of r' r'' "length r'"] spaces1_shorter [of cs r] cs by simp
qed

lemma match_numbered_item_shorter:
  assumes "match_numbered_item s = Some (x, rest)"
  shows "length rest < length s"
proof -
  let ?r1 = "dropWhile is_digit (dropWhile is_space s)"
  let ?r1' = "case ?r1 of [] \<Rightarrow> [] | d # ds \<Rightarrow> if d = CHR ''.'' then ds else ?r1"
  have "length ?r1' \<le> length ?r1"
    by (simp split: list.splits)
  also have "\<dots> \<le> length (dropWhile is_space s)"
    by (rule length_dropWhile_le)
  also have "\<dots> \<le> length s"
    by (rule length_dropWhile_le)
  finally have le: "length ?r1' \<le> length s" .
  from assms obtain r2 where "spaces1 ?r1' = Some r2" and "rest = snd (rest_of_line r2)"
    by (auto simp: match_numbered_item_def Let_def split: option.splits if_splits)
  then show ?thesis
    using after_spaces_shorter [of ?r1' r2 "length s"] le by simp
qed

section \<open>The progress analyzer never reverts a completed step\<close>

lemma analyze_step_keeps: "completed st \<Longrightarrow> analyze_step r ms fs st = st"
  by (simp add: analyze_step_def)

text \<open>
  Claim C1. For every list of steps, \<open>analyze_implementation_progress\<close> returns a list
  of the same length in which every step that entered with \<open>completed = True\<close> is
  returned as it was, so it leaves with \<open>completed = True\<close>; the same holds for the
  steps a planner holds after \<open>update_implementation_progress\<close>.
\<close>

theorem analyze_never_downgrades:
  "i < length steps \<Longrightarrow> completed (steps ! i) \<Longrightarrow>
   length (analyze_implementation_progress r steps) = length steps \<and>
   completed (analyze_implementation_progress r steps ! i) \<and>
   analyze_implementation_progress r steps ! i = steps ! i \<and>
   completed (implementation_steps
     (snd (update_implementation_progress r (self\<lparr>implementation_steps := steps\<rparr>))) ! i)"
  by (simp add: analyze_implementation_progress_def update_implementation_progress_def Let_def
      analyze_step_keeps)

theorem analyze_never_downgrades_witness:
  "0 < length [logout_done] \<and> completed ([logout_done] ! 0) \<and>
   length (analyze_implementation_progress example_repo [logout_done]) = length [logout_done] \<and>
   completed (analyze_implementation_progress example_repo [logout_done] ! 0) \<and>
   analyze_implementation_progress example_repo [logout_done] ! 0 = [logout_done] ! 0 \<and>
   completed (implementation_steps
     (snd (update_implementation_progress example_repo
            (idle_planner\<lparr>implementation_steps := [logout_done]\<rparr>))) ! 0)"
proof -
  have h: "completed ([logout_done] ! 0)"
    by (simp add: logout_done_def)
  show ?thesis
    using h analyze_never_downgrades [of 0 "[logout_done]" example_repo idle_planner] by simp
qed

section \<open>A missing documentation folder\<close>

lemma unreadable_file_stops_reading:
  "(filename, Inl e) \<in> set entries \<Longrightarrow> endswith filename ''.md'' \<Longrightarrow>
   \<exists>e'. read_md_files entries docs = Inl e'"
  by (induction entries docs rule: read_md_files.induct) (auto split: sum.splits)

lemma unreadable_file_yields_nothing:
  "(filename, Inl e) \<in> set entries \<Longrightarrow> endswith filename ''.md'' \<Longrightarrow>
   load_docs (Inr entries) = []"
  using unreadable_file_stops_reading [of filename e entries "[]"]
  by (auto simp: load_docs_def)

text \<open>
  Claim C9. When listing the documentation folder fails (the folder is missing or cannot
  be read), \<open>load_docs\<close> returns the empty dictionary, extraction returns the requirement
  set with four empty lists, and \<open>generate_implementation_steps\<close> returns the empty step
  list. The exception is caught inside \<open>load_docs\<close>, and nothing after it can raise:
  the results are plain values.
\<close>

theorem missing_folder_yields_nothing:
  "load_docs (Inl e) = [] \<and>
   extract_requirements (load_docs (Inl e)) = no_requirements \<and>
   fst (generate_implementation_steps (Inl e) self) = []"
  by (simp add: load_docs_def extract_requirements_def no_requirements_def dedup_def py_set_def
      generate_implementation_steps_def generate_steps_from_requirements_def Let_def)

theorem missing_folder_yields_nothing_witness:
  "load_docs (Inl OSError) = [] \<and>
   extract_requirements (load_docs (Inl OSError)) = no_requirements \<and>
   fst (generate_implementation_steps (Inl OSError) new_analyzer) = []"
  by (rule missing_folder_yields_nothing)

section \<open>A section goes to the first matching category only\<close>

text \<open>
  Claim C10. For every section, the items extracted from it are appended to the list of
  one category at most: the first category, in the order functional, technical, ui,
  architecture, one of whose keywords occurs in the lower-cased title. The list of every
  other category stays as it was, also when the title has keywords of several
  categories, and a blank section or one with no matching keyword changes nothing.
\<close>

theorem section_goes_to_first_match:
  "items_of c (add_section reqs sec) =
     items_of c reqs @
     (if strip sec \<noteq> [] \<and> first_matching_category (section_title sec) = Some c
      then extract_list_items (section_content sec) else [])"
  by (cases c)
    (simp_all add: add_section_def items_of_def first_matching_category_def category_keywords_def)

theorem section_goes_to_first_match_witness:
  "any_keyword_in functional_keywords (str_lower (section_title feature_design_section)) \<and>
   any_keyword_in architecture_keywords (str_lower (section_title feature_design_section)) \<and>
   items_of Functional (add_section no_requirements feature_design_section) =
     [''Dark mode'', ''- Dark mode''] \<and>
   items_of Technical (add_section no_requirements feature_design_section) = [] \<and>
   items_of Ui (add_section no_requirements feature_design_section) = [] \<and>
   items_of Architecture (add_section no_requirements feature_design_section) = []"
proof -
  have functional_matches:
    "any_keyword_in functional_keywords (str_lower (section_title feature_design_section))"
    by code_simp
  have architecture_matches:
    "any_keyword_in architecture_keywords (str_lower (section_title feature_design_section))"
    by code_simp
  have first_match: "first_matching_category (section_title feature_design_section) = Some Functional"
    by code_simp
  have items: "extract_list_items (section_content feature_design_section) =
      [''Dark mode'', ''- Dark mode'']"
    by code_simp
  have not_blank: "strip feature_design_section \<noteq> []"
    by code_simp
  show ?thesis
    using section_goes_to_first_match [of Functional no_requirements feature_design_section]
      section_goes_to_first_match [of Technical no_requirements feature_design_section]
      section_goes_to_first_match [of Ui no_requirements feature_design_section]
      section_goes_to_first_match [of Architecture no_requirements feature_design_section]
      functional_matches architecture_matches first_match items not_blank
    by (simp add: items_of_def no_requirements_def)
qed

section \<open>The context of an implementation request\<close>

lemma relevant_files_not_empty:
  "s \<in> set steps \<Longrightarrow> relevant_file s = Some f \<Longrightarrow>
   concat (map (\<lambda>s. case relevant_file s of None \<Rightarrow> [] | Some f \<Rightarrow> [f]) steps) \<noteq> []"
  by (induction steps) (auto split: option.splits)

lemma context_raises_whenever_a_file_is_known:
  assumes "s \<in> set steps" and "category s = Some (step_category st)"
    and "step_id s \<noteq> step_id st" and "completed s" and "relevant_file s = Some f"
  shows "get_context_for_step steps st = Inl TypeError"
proof -
  have "s \<in> set (filter completed
      (filter (\<lambda>s. category s = Some (step_category st) \<and> step_id s \<noteq> step_id st) steps))"
    using assms by simp
  from relevant_files_not_empty [OF this assms(5)] show ?thesis
    by (simp add: get_context_for_step_def Let_def)
qed

text \<open>
  Claim C4, at the input where the code departs from it. The next step is pending, and
  a completed step of the same category carries a \<open>relevant_file\<close>: building the context
  raises \<open>TypeError\<close> instead of returning a string with the file listed.
\<close>

theorem context_raises_on_relevant_file:
  "get_context_for_step [login_found_in_file, logout_pending] logout_pending = Inl TypeError"
  by code_simp

section \<open>The scenario of the login step\<close>

text \<open>
  Claim C5 as stated: the keywords of the step \<open>Implement Add login\<close> are \<open>add\<close> and
  \<open>login\<close>. They are not: \<open>add\<close> is one of the common words the extraction removes.
\<close>

theorem login_keywords_counterexample:
  "set (extract_keywords (str_lower (description login_step))) \<noteq> {''add'', ''login''}"
proof -
  have "extract_keywords (str_lower (description login_step)) = [''login'']"
    by code_simp
  then show ?thesis
    by simp
qed

text \<open>
  Claim C5, amended. The keyword set of the step \<open>Implement Add login\<close> is \<open>login\<close> alone;
  the commit message \<open>Implement add login flow\<close> contains it, one keyword of one, so the
  message has enough keywords and \<open>analyze_implementation_progress\<close> returns the step
  completed with the completion method \<open>commit_message\<close>.
\<close>

theorem login_commit_completes_step:
  "extract_keywords (str_lower (description login_step)) = [''login''] \<and>
   length (filter (contains (str_lower ''Implement add login flow'')) [''login'']) = 1 \<and>
   has_enough_keywords (str_lower ''Implement add login flow'')
     (extract_keywords (str_lower (description login_step))) (1 / 2) \<and>
   analyze_implementation_progress example_repo [login_step] =
     [login_step\<lparr>completed := True, completion_method := Some CommitMessage\<rparr>]"
  by code_simp

section \<open>The scenario of the features document\<close>

lemma features_functional:
  "functional (extract_requirements (load_docs features_folder)) =
     [''Add login'', ''Add logout'', list_block]"
  by code_simp

lemma list_block_is_neither_item: "list_block \<noteq> ''Add login'' \<and> list_block \<noteq> ''Add logout''"
  by code_simp

text \<open>
  Claim C6 as stated: the category \<open>functional\<close> holds the two list items and nothing
  else. It holds a third requirement, the paragraph made of the two list lines.
\<close>

theorem features_requirements_counterexample:
  "set (functional (extract_requirements (load_docs features_folder))) \<noteq>
     {''Add login'', ''Add logout''}"
proof -
  have "list_block \<in> set (functional (extract_requirements (load_docs features_folder)))"
    by (simp add: features_functional)
  moreover have "list_block \<notin> {''Add login'', ''Add logout''}"
    using list_block_is_neither_item by simp
  ultimately show ?thesis
    by metis
qed

text \<open>
  Claim C6, amended. For the folder with the one file \<open>## Features\<close>, \<open>- Add login\<close>,
  \<open>- Add logout\<close>, the category \<open>functional\<close> is the set of three requirements
  \<open>Add login\<close>, \<open>Add logout\<close> and the paragraph of the two list lines; the other
  categories are empty; and step generation gives three steps, \<open>Implement\<close> followed by
  each of the three, all with \<open>completed = False\<close>.
\<close>

theorem features_requirements_and_steps:
  "set (functional (extract_requirements (load_docs features_folder))) =
     {''Add login'', ''Add logout'', list_block} \<and>
   technical (extract_requirements (load_docs features_folder)) = [] \<and>
   ui (extract_requirements (load_docs features_folder)) = [] \<and>
   architecture (extract_requirements (load_docs features_folder)) = [] \<and>
   set (map description (fst (generate_implementation_steps features_folder new_analyzer))) =
     {''Implement Add login'', ''Implement Add logout'', ''Implement '' @ list_block} \<and>
   map completed (fst (generate_implementation_steps features_folder new_analyzer)) =
     [False, False, False]"
proof -
  have others: "technical (extract_requirements (load_docs features_folder)) = [] \<and>
      ui (extract_requirements (load_docs features_folder)) = [] \<and>
      architecture (extract_requirements (load_docs features_folder)) = []"
    by code_simp
  have descriptions:
    "map description (fst (generate_implementation_steps features_folder new_analyzer)) =
       [''Implement Add login'', ''Implement Add logout'', ''Implement '' @ list_block]"
    by code_simp
  have flags:
    "map completed (fst (generate_implementation_steps features_folder new_analyzer)) =
       [False, False, False]"
    by code_simp
  show ?thesis
    unfolding features_functional descriptions flags using others by simp
qed

section \<open>Rounding to a double and the threshold 0.5\<close>

lemma bitlen_powi_bounds:
  assumes "0 < a"
  shows "(2::rat) powi (bitlen a - 1) \<le> of_int a" and "of_int a < (2::rat) powi bitlen a"
proof -
  have pos: "0 < bitlen a"
    using assms bitlen_eq_zero_iff [of a] bitlen_nonneg [of a] by linarith
  have b: "2 ^ nat (bitlen a - 1) \<le> a" "a < 2 ^ nat (bitlen a)"
    using bitlen_bounds [OF assms] by simp_all
  have "(of_int (2 ^ nat (bitlen a - 1)) :: rat) \<le> of_int a"
    using b(1) of_int_le_iff by blast
  then show "(2::rat) powi (bitlen a - 1) \<le> of_int a"
    using pos by (simp add: power_int_def)
  have "(of_int a :: rat) < of_int (2 ^ nat (bitlen a))"
    using b(2) of_int_less_iff by blast
  then show "of_int a < (2::rat) powi bitlen a"
    using pos by (simp add: power_int_def)
qed

lemma binade_bounds:
  assumes "0 < x"
  shows "2 powi binade x \<le> x \<and> x < 2 powi (binade x + 1)"
proof -
  obtain a b where q: "quotient_of x = (a, b)"
    by (cases "quotient_of x")
  have b_pos: "0 < b"
    using q quotient_of_denom_pos by blast
  have x_eq: "x = of_int a / of_int b"
    using q quotient_of_div by blast
  have a_pos: "0 < a"
    using assms b_pos x_eq by (simp add: zero_less_divide_iff)
  let ?d = "bitlen a - bitlen b"
  have upper: "x < 2 powi (?d + 1)"
  proof -
    have "x * of_int b = of_int a"
      using x_eq b_pos by simp
    also have "\<dots> < 2 powi bitlen a"
      using bitlen_powi_bounds(2) [OF a_pos] .
    also have "\<dots> = 2 powi (?d + 1) * 2 powi (bitlen b - 1)"
      by (simp flip: power_int_add)
    also have "\<dots> \<le> 2 powi (?d + 1) * of_int b"
      using bitlen_powi_bounds(1) [OF b_pos] by (simp add: mult_left_mono)
    finally show ?thesis
      using b_pos by simp
  qed
  have lower: "2 powi (?d - 1) \<le> x"
  proof -
    have "2 powi (?d - 1) * of_int b \<le> 2 powi (?d - 1) * (2::rat) powi bitlen b"
      using bitlen_powi_bounds(2) [OF b_pos] by (simp add: mult_left_mono)
    also have "\<dots> = 2 powi (bitlen a - 1)"
      by (simp flip: power_int_add)
    also have "\<dots> \<le> of_int a"
      using bitlen_powi_bounds(1) [OF a_pos] .
    also have "\<dots> = x * of_int b"
      using x_eq b_pos by simp
    finally show ?thesis
      using b_pos by simp
  qed
  show ?thesis
  proof (cases "2 powi ?d \<le> x")
    case True
    then have "binade x = ?d"
      by (simp add: binade_def q)
    then show ?thesis
      using True upper by simp
  next
    case False
    then have "binade x = ?d - 1"
      by (simp add: binade_def q)
    then show ?thesis
      using False lower by simp
  qed
qed

lemma round_half_even_lower:
  assumes "of_int k \<le> y"
  shows "k \<le> round_half_even y"
proof -
  have "k \<le> \<lfloor>y\<rfloor>"
    using assms by (simp add: le_floor_iff)
  then show ?thesis
    by (simp add: round_half_even_def Let_def)
qed

lemma round_half_even_upper:
  assumes "y \<le> of_int k"
  shows "round_half_even y \<le> k"
proof -
  have le: "\<lfloor>y\<rfloor> \<le> k"
    using assms by (simp add: floor_le_iff) 
  show ?thesis
  proof (cases "y - of_int \<lfloor>y\<rfloor> < 1 / 2")
    case True
    then show ?thesis using le by (simp add: round_half_even_def)
  next
    case False
    then have "of_int \<lfloor>y\<rfloor> < y" by simp
    then have "of_int \<lfloor>y\<rfloor> < (of_int k :: rat)" using assms by linarith
    then have "\<lfloor>y\<rfloor> < k" by simp
    then show ?thesis by (simp add: round_half_even_def Let_def)
  qed
qed

lemma powi_less_imp_less:
  assumes "(2::rat) powi m < 2 powi n"
  shows "m < n"
proof (rule ccontr)
  assume "\<not> m < n"
  then have "(2::rat) powi n \<le> 2 powi m"
    by (intro power_int_increasing) simp_all
  with assms show False
    by simp
qed

lemma powi_split: "(2::rat) ^ k * 2 powi (e - int k) = 2 powi e"
proof -
  have "(2::rat) powi (int k + (e - int k)) = 2 powi int k * 2 powi (e - int k)"
    by (rule power_int_add) simp
  then show ?thesis
    by simp
qed

lemma round_double_ge_half:
  assumes "1 / 2 \<le> x"
  shows "1 / 2 \<le> round_double x"
proof -
  have x_pos: "0 < x"
    using assms by simp
  let ?e = "binade x"
  let ?s = "(2::rat) powi (?e - 52)"
  let ?r = "round_half_even (x / ?s)"
  have s_pos: "0 < ?s"
    by simp
  have "(2::rat) powi (-1) < 2 powi (?e + 1)"
    using binade_bounds [OF x_pos] assms by (simp add: power_int_minus)
  then have e: "-1 \<le> ?e"
    using powi_less_imp_less [of "-1" "?e + 1"] by simp
  have split: "(2::rat) ^ 52 * ?s = 2 powi ?e"
    using powi_split [of 52 ?e] by simp
  then have "(2::rat) ^ 52 * ?s \<le> x"
    using binade_bounds [OF x_pos] by simp
  then have "of_int (2 ^ 52) \<le> x / ?s"
    using s_pos by (simp add: pos_le_divide_eq)
  then have "2 ^ 52 \<le> ?r"
    by (rule round_half_even_lower)
  then have "(of_int (2 ^ 52) :: rat) \<le> of_int ?r"
    by (simp only: of_int_le_iff)
  then have r_ge: "(2::rat) ^ 52 \<le> of_int ?r"
    by simp
  have "(1 / 2 :: rat) = 2 powi (-1)"
    by (simp add: power_int_minus)
  also have "\<dots> \<le> 2 powi ?e"
    using e by (intro power_int_increasing) simp_all
  also have "\<dots> = (2::rat) ^ 52 * ?s"
    using split by simp
  also have "\<dots> \<le> of_int ?r * ?s"
    using r_ge s_pos by (intro mult_right_mono) simp_all
  finally show ?thesis
    using x_pos by (simp add: round_double_def Let_def)
qed

lemma round_double_lt_half:
  assumes "x \<le> 1 / 2 - 1 / 2 ^ 54"
  shows "round_double x < 1 / 2"
proof (cases "x \<le> 0")
  case True
  then show ?thesis
    by (simp add: round_double_def)
next
  case False
  then have x_pos: "0 < x"
    by simp
  let ?e = "binade x"
  let ?s = "(2::rat) powi (?e - 52)"
  have s_pos: "0 < ?s"
    by simp
  have rd: "round_double x = of_int (round_half_even (x / ?s)) * ?s"
    using False by (simp add: round_double_def Let_def)
  have "(2::rat) powi ?e < 2 powi (-1)"
    using binade_bounds [OF x_pos] assms by (simp add: power_int_minus)
  then have e: "?e \<le> -2"
    using powi_less_imp_less [of ?e "-1"] by simp
  show ?thesis
  proof (cases "?e = -2")
    case True
    then have s: "?s = 1 / 2 ^ 54"
      by (simp add: power_int_minus field_simps)
    have "x / ?s \<le> of_int (2 ^ 53 - 1)"
      using assms unfolding s by (simp add: field_simps)
    then have "round_half_even (x / ?s) \<le> 2 ^ 53 - 1"
      by (rule round_half_even_upper)
    then have "(of_int (round_half_even (x / ?s)) :: rat) \<le> of_int (2 ^ 53 - 1)"
      using of_int_le_iff by blast
    then have "of_int (round_half_even (x / ?s)) * ?s \<le> of_int (2 ^ 53 - 1) * ?s"
      using s_pos by (simp only: mult_le_cancel_right_pos)
    also have "\<dots> < 1 / 2"
      unfolding s by simp
    finally show ?thesis
      using rd by simp
  next
    case False
    with e have e3: "?e + 1 \<le> -2"
      by simp
    have eq: "(2::rat) ^ 53 * ?s = 2 powi (?e + 1)"
      using powi_split [of 53 "?e + 1"] by simp
    have "x \<le> (2::rat) ^ 53 * ?s"
      using binade_bounds [OF x_pos] eq by simp
    then have "x / ?s \<le> of_int (2 ^ 53)"
      using s_pos by (simp add: pos_divide_le_eq)
    then have "round_half_even (x / ?s) \<le> 2 ^ 53"
      by (rule round_half_even_upper)
    then have "(of_int (round_half_even (x / ?s)) :: rat) \<le> of_int (2 ^ 53)"
      using of_int_le_iff by blast
    then have "of_int (round_half_even (x / ?s)) * ?s \<le> of_int (2 ^ 53) * ?s"
      using s_pos by (simp only: mult_le_cancel_right_pos)
    also have "\<dots> = 2 powi (?e + 1)"
      using eq by simp
    also have "\<dots> \<le> 2 powi (-2)"
      using e3 by (intro power_int_increasing) simp_all
    also have "\<dots> < 1 / 2"
      by (simp add: power_int_minus)
    finally show ?thesis
      using rd by simp
  qed
qed

lemma fdiv_ge_half_iff:
  assumes "0 < n" and "n \<le> 2 ^ 53"
  shows "(1 / 2 \<le> fdiv p n) = (n \<le> 2 * p)"
proof (cases "n \<le> 2 * p")
  case True
  then have "(of_nat n :: rat) \<le> of_nat (2 * p)"
    using of_nat_le_iff by blast
  then have "(1 / 2 :: rat) \<le> of_nat p / of_nat n"
    using assms(1) by (simp add: field_simps)
  then show ?thesis
    using True round_double_ge_half by (simp add: fdiv_def)
next
  case False
  then have "2 * p + 1 \<le> n"
    by simp
  then have "(of_nat (2 * p + 1) :: rat) \<le> of_nat n"
    using of_nat_le_iff by blast
  then have a: "(of_nat p :: rat) / of_nat n \<le> 1 / 2 - 1 / (2 * of_nat n)"
    using assms(1) by (simp add: field_simps)
  have "(of_nat n :: rat) \<le> of_nat (2 ^ 53)"
    using assms(2) of_nat_le_iff by blast
  then have "(1 :: rat) / 2 ^ 54 \<le> 1 / (2 * of_nat n)"
    using assms(1) by (simp add: field_simps)
  with a have "(of_nat p :: rat) / of_nat n \<le> 1 / 2 - 1 / 2 ^ 54"
    by linarith
  then have "round_double (of_nat p / of_nat n) < 1 / 2"
    by (rule round_double_lt_half)
  then show ?thesis
    using False by (simp add: fdiv_def)
qed

section \<open>The keyword threshold\<close>

lemma ceil_half_le_iff: "(nat \<lceil>(1 / 2 :: rat) * of_nat n\<rceil> \<le> p) = (n \<le> 2 * p)"
proof -
  have "(nat \<lceil>(1 / 2 :: rat) * of_nat n\<rceil> \<le> p) = (\<lceil>(1 / 2 :: rat) * of_nat n\<rceil> \<le> int p)"
    by (simp add: nat_le_iff)
  also have "\<dots> = ((1 / 2 :: rat) * of_nat n \<le> of_int (int p))"
    by (rule ceiling_le_iff)
  also have "\<dots> = ((of_nat n :: rat) \<le> of_nat (2 * p))"
    by (simp add: field_simps)
  also have "\<dots> = (n \<le> 2 * p)"
    by (rule of_nat_le_iff)
  finally show ?thesis .
qed

lemma has_enough_keywords_count:
  assumes "keywords \<noteq> []" and "length keywords \<le> 2 ^ 53"
  shows "has_enough_keywords text keywords (1 / 2) =
    (length keywords \<le> 2 * length (filter (contains text) keywords))"
  using assms fdiv_ge_half_iff [of "length keywords" "length (filter (contains text) keywords)"]
  by (simp add: has_enough_keywords_def Let_def)

lemma card_present:
  "distinct keywords \<Longrightarrow> card {k \<in> set keywords. contains text k} = length (filter (contains text) keywords)"
  using distinct_card [of "filter (contains text) keywords"] by simp

lemma distinct_extract_keywords: "distinct (extract_keywords d)"
  by (simp add: extract_keywords_def py_set_def Let_def)

text \<open>
  Claim C2. For every text and every keyword set of at most \<open>2^53\<close> members (a Python set
  is a list without repetition here), \<open>_has_enough_keywords\<close> with the default threshold
  returns true iff the set is not empty and at least \<open>ceil(0.5 * |keywords|)\<close> of its
  members occur in the text as substrings; for the empty set it returns false for every
  text. The analyzer calls it with the lower-cased commit message or file content and
  with the keywords of the step. The division is the floating-point division of the
  source; the bound on the size keeps the rounded quotient on the right side of 0.5.
\<close>

theorem has_enough_keywords_threshold:
  assumes "distinct keywords" and "length keywords \<le> 2 ^ 53"
  shows "(keywords \<noteq> [] \<longrightarrow>
           has_enough_keywords text keywords (1 / 2) =
             (nat \<lceil>(1 / 2 :: rat) * of_nat (card (set keywords))\<rceil>
               \<le> card {k \<in> set keywords. contains text k})) \<and>
         (keywords = [] \<longrightarrow> \<not> has_enough_keywords text keywords (1 / 2))"
proof (intro conjI impI)
  assume "keywords \<noteq> []"
  then show "has_enough_keywords text keywords (1 / 2) =
      (nat \<lceil>(1 / 2 :: rat) * of_nat (card (set keywords))\<rceil>
        \<le> card {k \<in> set keywords. contains text k})"
    unfolding card_present [OF assms(1)] distinct_card [OF assms(1)] ceil_half_le_iff
    using assms(2) by (rule has_enough_keywords_count)
next
  assume "keywords = []"
  then show "\<not> has_enough_keywords text keywords (1 / 2)"
    by (simp add: has_enough_keywords_def)
qed

theorem has_enough_keywords_threshold_witness:
  "distinct two_keywords \<and> length two_keywords \<le> 2 ^ 53 \<and> two_keywords \<noteq> [] \<and>
   has_enough_keywords ''implement add login flow'' two_keywords (1 / 2) \<and>
   nat \<lceil>(1 / 2 :: rat) * of_nat (card (set two_keywords))\<rceil>
     \<le> card {k \<in> set two_keywords. contains ''implement add login flow'' k} \<and>
   \<not> has_enough_keywords ''implement add login flow'' [] (1 / 2)"
proof -
  have d: "distinct two_keywords"
    by (simp add: two_keywords_def)
  have l: "length two_keywords \<le> 2 ^ 53"
    by (simp add: two_keywords_def)
  have n: "two_keywords \<noteq> []"
    by (simp add: two_keywords_def)
  have h: "has_enough_keywords ''implement add login flow'' two_keywords (1 / 2)"
    by code_simp
  show ?thesis
    using has_enough_keywords_threshold [OF d l, of "''implement add login flow''"]
      has_enough_keywords_threshold [of "[]" "''implement add login flow''"]
      d l n h
    by simp
qed

section \<open>The progress percentage\<close>

lemma progress_percentage_three_of_seven: "progress_percentage 3 4 = 42"
  by code_simp

text \<open>
  Claim C7, at an input where the code departs from it. With 29 completed and 21
  pending steps the exact percentage is 58, and so is its floor; the source divides and
  multiplies in floating point, the product is the double just below 58, and \<open>int\<close>
  gives 57.
\<close>

theorem progress_percentage_below_floor:
  "progress_percentage 29 21 = 57 \<and> \<lfloor>(29 :: rat) / (29 + 21) * 100\<rfloor> = 58"
  by code_simp

section \<open>No pending steps\<close>

lemma round_double_1: "round_double 1 = 1" by code_simp
lemma round_double_100: "round_double 100 = 100" by code_simp

lemma progress_percentage_all_done: "0 < n \<Longrightarrow> progress_percentage n 0 = 100"
  by (simp add: progress_percentage_def fdiv_def fmul_def round_double_1 round_double_100)

lemma progress_percentage_no_steps: "progress_percentage 0 0 = 0"
  by (simp add: progress_percentage_def)

lemma no_pending_enumerate:
  "filter (\<lambda>s. \<not> completed s) steps = [] \<Longrightarrow> filter (\<lambda>p. \<not> completed (snd p)) (enumerate n steps) = []"
  by (induction steps arbitrary: n) (auto split: if_splits)

lemma no_pending_all_completed:
  "filter (\<lambda>s. \<not> completed s) steps = [] \<Longrightarrow> filter completed steps = steps"
  by (induction steps) (auto split: if_splits)

lemma string_of_int_100: "string_of_int 100 = ''100''" by code_simp
lemma string_of_int_0: "string_of_int 0 = ''0''" by code_simp

lemma progress_blocks_no_pending:
  "msg_blocks (progress_update_message ch steps []) =
     [Header ''Implementation Progress Update'',
      Section (''*Progress:* '' @ string_of_int (progress_percentage (length steps) 0) @
               ''% complete ('' @ string_of_nat (length steps) @ ''/'' @
               string_of_nat (length steps) @ '' tasks)'')] @
     (if steps \<noteq> [] then [Section (task_list_text ''*Completed Tasks:*'' check_mark steps)]
      else [])"
  by (simp add: progress_update_message_def Let_def)

lemma no_next_task_block:
  "filter is_next_task_block (msg_blocks (progress_update_message ch steps [])) = []"
  by (simp add: progress_blocks_no_pending is_next_task_block_def task_list_text_def)

lemma progress_text_no_pending:
  "msg_text (progress_update_message ch steps []) =
     ''Implementation Progress: '' @ (if steps = [] then ''0'' else ''100'') @ ''% complete''"
  by (cases steps)
    (simp_all add: progress_update_message_def Let_def progress_percentage_all_done
      progress_percentage_no_steps string_of_int_100 string_of_int_0)

text \<open>
  Claim C8 as stated: with zero pending steps the progress update reports 100 percent.
  A planner with no steps has zero pending steps, and its update reports 0 percent.
\<close>

theorem no_steps_progress_counterexample:
  "implementation_steps idle_planner = [] \<and>
   map msg_text (snd (snd (planner_send_progress_update ''2024-01-01T00:00:00'' idle_planner))) =
     [''Implementation Progress: 0% complete'']"
proof -
  have "implementation_steps idle_planner = []"
    by (simp add: idle_planner_def)
  moreover have
    "map msg_text (snd (snd (planner_send_progress_update ''2024-01-01T00:00:00'' idle_planner))) =
       [''Implementation Progress: 0% complete'']"
    by code_simp
  ultimately show ?thesis
    by simp
qed

text \<open>
  Claim C8, amended. For every planner with a Slack client and zero pending steps, the
  progress update is still sent: exactly one message is handed to the client. It reports
  100 percent when there is at least one step and 0 percent when there is none, it has no
  block naming a next task, and \<open>send_next_implementation_request\<close> returns \<open>None\<close>,
  sends nothing and leaves the planner as it was.
\<close>

theorem no_pending_steps_update:
  assumes "filter (\<lambda>s. \<not> completed s) (implementation_steps self) = []"
    and "si_client (slack self) = Some client"
  shows "snd (snd (planner_send_progress_update now self)) =
           [progress_update_message (si_channel (slack self)) (implementation_steps self) []] \<and>
         msg_text (progress_update_message (si_channel (slack self)) (implementation_steps self) []) =
           ''Implementation Progress: '' @
           (if implementation_steps self = [] then ''0'' else ''100'') @ ''% complete'' \<and>
         filter is_next_task_block
           (msg_blocks (progress_update_message (si_channel (slack self)) (implementation_steps self) [])) = [] \<and>
         send_next_implementation_request now self = Inr (None, self, [])"
proof -
  have sent: "snd (snd (planner_send_progress_update now self)) =
      [progress_update_message (si_channel (slack self)) (implementation_steps self) []]"
    using assms
    by (cases "client (progress_update_message (si_channel (slack self)) (implementation_steps self) [])")
      (simp_all add: planner_send_progress_update_def send_progress_update_def post_def
        no_pending_all_completed Let_def)
  have request: "send_next_implementation_request now self = Inr (None, self, [])"
    using no_pending_enumerate [OF assms(1)]
    by (simp add: send_next_implementation_request_def Let_def)
  show ?thesis
    using sent request by (simp add: progress_text_no_pending no_next_task_block)
qed

theorem no_pending_steps_update_witness:
  "filter (\<lambda>s. \<not> completed s) (implementation_steps finished_planner) = [] \<and>
   implementation_steps finished_planner \<noteq> [] \<and>
   map msg_text (snd (snd (planner_send_progress_update ''2024-01-01T00:00:00'' finished_planner))) =
     [''Implementation Progress: 100% complete''] \<and>
   filter is_next_task_block
     (concat (map msg_blocks (snd (snd (planner_send_progress_update ''2024-01-01T00:00:00'' finished_planner))))) = [] \<and>
   send_next_implementation_request ''2024-01-01T00:00:00'' finished_planner =
     Inr (None, finished_planner, [])"
proof -
  have none_pending: "filter (\<lambda>s. \<not> completed s) (implementation_steps finished_planner) = []"
    by (simp add: finished_planner_def login_found_in_file_def logout_done_def)
  have client: "si_client (slack finished_planner) = Some (\<lambda>m. Inr ''1700000000.000100'')"
    by (simp add: finished_planner_def accepting_slack_def)
  have steps: "implementation_steps finished_planner \<noteq> []"
    by (simp add: finished_planner_def)
  show ?thesis
    using no_pending_steps_update [OF none_pending client, of "''2024-01-01T00:00:00''"]
      none_pending steps
    by simp
qed

section \<open>Saving the plan and reading it again\<close>














lemma saved_plan_is_not_a_task_list: "extract_implementation_steps (plan_text [logout_done]) = []"
  by code_simp




end
